theory Spec2Isabelle
  imports Complex_Main "HOL-Library.Sublist" "HOL-Library.Multiset"
begin

section \<open>Python values, exceptions and the outside world\<close>

text \<open>
  The program is one Python file, \<^verbatim>\<open>Streamlit.py\<close>. Everything it computes on comes out of
  \<^verbatim>\<open>response.json()\<close>, so the values are those of a decoded JSON document. A \<open>PDict\<close> lists
  its items in order, with distinct keys; a \<open>PFloat\<close> is a JSON number written with a fraction
  or an exponent, of which the program only ever uses the truth value and the type.
\<close>

datatype pyval =
    PNone
  | PBool bool
  | PInt int
  | PFloat rat
  | PStr string
  | PList "pyval list"
  | PDict "(string \<times> pyval) list"

text \<open>
  The exception classes the code can meet, each carrying \<^verbatim>\<open>str(e)\<close>. \<open>LibraryError\<close> stands for
  any other subclass of \<^verbatim>\<open>Exception\<close> that a library call raises (a refused connection, a
  model that is not installed, an unreadable spreadsheet).
\<close>

datatype exn_class = KeyError | TypeError | IndexError | ValueError | AttributeError | LibraryError

datatype exn = Exn (exn_cls: exn_class) (exn_str: string)

text \<open>What \<^verbatim>\<open>st.error\<close>, \<^verbatim>\<open>st.text\<close>, \<^verbatim>\<open>st.write\<close> and \<^verbatim>\<open>st.success\<close> put on the page
  while an action runs. The fixed decoration of the page (titles, introductions, spinners,
  the uploaded table) is not recorded.\<close>

datatype ui_event = st_error string | st_text string | st_write string | st_success string

text \<open>
  A \<^verbatim>\<open>requests.Response\<close>: its status, its text, and what \<^verbatim>\<open>response.json()\<close> gives, \<open>None\<close>
  when the body is not JSON (\<^verbatim>\<open>json()\<close> then raises a \<^verbatim>\<open>ValueError\<close>).
\<close>

record response =
  status_code :: nat
  resp_text :: string
  json_body :: "pyval option"

text \<open>
  The six URLs the program builds, by endpoint and by the values formatted into the query
  string. \<^verbatim>\<open>requests.get\<close> is a parameter of every function that calls it: it answers with a
  response, or raises.
\<close>

datatype request =
    ListIngredients
  | ListCategories
  | ListAreas
  | FilterByIngredient string
  | FilterByCategoryArea pyval pyval
  | Lookup pyval

type_synonym http = "request \<Rightarrow> exn + response"

subsection \<open>The Python operations the code uses\<close>

fun type_name :: "pyval \<Rightarrow> string" where
  "type_name PNone = ''NoneType''"
| "type_name (PBool _) = ''bool''"
| "type_name (PInt _) = ''int''"
| "type_name (PFloat _) = ''float''"
| "type_name (PStr _) = ''str''"
| "type_name (PList _) = ''list''"
| "type_name (PDict _) = ''dict''"

text \<open>\<^verbatim>\<open>if v:\<close>\<close>

fun truthy :: "pyval \<Rightarrow> bool" where
  "truthy PNone = False"
| "truthy (PBool b) = b"
| "truthy (PInt i) = (i \<noteq> 0)"
| "truthy (PFloat q) = (q \<noteq> 0)"
| "truthy (PStr s) = (s \<noteq> [])"
| "truthy (PList xs) = (xs \<noteq> [])"
| "truthy (PDict kvs) = (kvs \<noteq> [])"

text \<open>\<^verbatim>\<open>v['key']\<close> with a string key\<close>

fun subscript_key :: "pyval \<Rightarrow> string \<Rightarrow> exn + pyval" where
  "subscript_key (PDict kvs) k =
     (case map_of kvs k of
        None \<Rightarrow> Inl (Exn KeyError ([CHR 0x27] @ k @ [CHR 0x27]))
      | Some v \<Rightarrow> Inr v)"
| "subscript_key (PStr s) k = Inl (Exn TypeError ''string indices must be integers'')"
| "subscript_key (PList xs) k = Inl (Exn TypeError ''list indices must be integers or slices, not str'')"
| "subscript_key v k = Inl (Exn TypeError ([CHR 0x27] @ type_name v @ [CHR 0x27] @ '' object is not subscriptable''))"

text \<open>\<^verbatim>\<open>v[0]\<close>\<close>

fun subscript_0 :: "pyval \<Rightarrow> exn + pyval" where
  "subscript_0 (PList []) = Inl (Exn IndexError ''list index out of range'')"
| "subscript_0 (PList (x # xs)) = Inr x"
| "subscript_0 (PStr []) = Inl (Exn IndexError ''string index out of range'')"
| "subscript_0 (PStr (c # cs)) = Inr (PStr [c])"
| "subscript_0 (PDict kvs) = Inl (Exn KeyError ''0'')"
| "subscript_0 v = Inl (Exn TypeError ([CHR 0x27] @ type_name v @ [CHR 0x27] @ '' object is not subscriptable''))"

text \<open>\<^verbatim>\<open>for x in v\<close>: the elements of a list, the keys of a dict, the characters of a string\<close>

fun py_iter :: "pyval \<Rightarrow> exn + pyval list" where
  "py_iter (PList xs) = Inr xs"
| "py_iter (PDict kvs) = Inr (map (\<lambda>kv. PStr (fst kv)) kvs)"
| "py_iter (PStr s) = Inr (map (\<lambda>c. PStr [c]) s)"
| "py_iter v = Inl (Exn TypeError ([CHR 0x27] @ type_name v @ [CHR 0x27] @ '' object is not iterable''))"

text \<open>\<^verbatim>\<open>v.get('key')\<close>: only a dict has the method\<close>

fun py_get :: "pyval \<Rightarrow> string \<Rightarrow> exn + pyval" where
  "py_get (PDict kvs) k = Inr (case map_of kvs k of None \<Rightarrow> PNone | Some v \<Rightarrow> v)"
| "py_get v k = Inl (Exn AttributeError ([CHR 0x27] @ type_name v @ [CHR 0x27] @ '' object has no attribute '' @ [CHR 0x27] @ ''get'' @ [CHR 0x27]))"

text \<open>\<^verbatim>\<open>v in names\<close> for a list of strings: \<^verbatim>\<open>==\<close> between a string and a value of another
  type is false.\<close>

fun py_in :: "pyval \<Rightarrow> string list \<Rightarrow> bool" where
  "py_in (PStr s) names = (s \<in> set names)"
| "py_in v names = False"

text \<open>A list comprehension \<^verbatim>\<open>[f(x) for x in xs]\<close> whose body can raise\<close>

fun comprehension :: "('a \<Rightarrow> exn + 'b) \<Rightarrow> 'a list \<Rightarrow> exn + 'b list" where
  "comprehension f [] = Inr []"
| "comprehension f (x # xs) =
     (case f x of
        Inl e \<Rightarrow> Inl e
      | Inr y \<Rightarrow> (case comprehension f xs of Inl e \<Rightarrow> Inl e | Inr ys \<Rightarrow> Inr (y # ys)))"

text \<open>\<^verbatim>\<open>f"{n}"\<close> for a number that is not negative\<close>

fun string_of_nat :: "nat \<Rightarrow> string" where
  "string_of_nat n =
     (if n < 10 then [''0123456789'' ! n]
      else string_of_nat (n div 10) @ [''0123456789'' ! (n mod 10)])"

declare string_of_nat.simps [simp del]

text \<open>\<^verbatim>\<open>response.json()\<close>\<close>

definition json :: "response \<Rightarrow> exn + pyval" where
  "json response =
     (case json_body response of
        None \<Rightarrow> Inl (Exn ValueError ''Expecting value'')
      | Some v \<Rightarrow> Inr v)"

definition status_failed :: "response \<Rightarrow> ui_event" where
  "status_failed response =
     st_error (''API request failed with status code '' @ string_of_nat (status_code response))"

section \<open>The recipe database client\<close>

text \<open>
  Every function returns what Python returns (\<open>Inr\<close>) or the exception it raises (\<open>Inl\<close>),
  together with what it has put on the page. \<^verbatim>\<open>return None\<close> is \<open>Inr PNone\<close>.
\<close>

definition fetch_ingredient_list :: "http \<Rightarrow> (exn + pyval) \<times> ui_event list" where
  "fetch_ingredient_list get =
     (case get ListIngredients of
        Inl e \<Rightarrow> (Inl e, [])
      | Inr response \<Rightarrow>
          if status_code response = 200 then
            (case json response of
               Inl e \<Rightarrow> (Inr PNone, [st_error ''Error decoding JSON response''])
             | Inr j \<Rightarrow>
                 (case subscript_key j ''meals'' of
                    Inl e \<Rightarrow> (Inl e, [])
                  | Inr meals \<Rightarrow> (Inr meals, [])))
          else (Inr PNone, [status_failed response]))"

text \<open>The two list fetchers return a Python list, or \<^verbatim>\<open>None\<close> (here \<open>None\<close>).\<close>

definition fetch_category_list :: "http \<Rightarrow> (exn + pyval list option) \<times> ui_event list" where
  "fetch_category_list get =
     (case get ListCategories of
        Inl e \<Rightarrow> (Inl e, [])
      | Inr response \<Rightarrow>
          if status_code response = 200 then
            (case json response of
               Inl e \<Rightarrow> (Inr None, [st_error ''Error decoding JSON response''])
             | Inr j \<Rightarrow>
                 (case subscript_key j ''categories'' of
                    Inl e \<Rightarrow> (Inl e, [])
                  | Inr cats \<Rightarrow>
                      (case py_iter cats of
                         Inl e \<Rightarrow> (Inl e, [])
                       | Inr cs \<Rightarrow>
                           (case comprehension (\<lambda>category. subscript_key category ''strCategory'') cs of
                              Inl e \<Rightarrow> (Inl e, [])
                            | Inr names \<Rightarrow> (Inr (Some names), [])))))
          else (Inr None, [status_failed response]))"

definition fetch_area_list :: "http \<Rightarrow> (exn + pyval list option) \<times> ui_event list" where
  "fetch_area_list get =
     (case get ListAreas of
        Inl e \<Rightarrow> (Inl e, [])
      | Inr response \<Rightarrow>
          if status_code response = 200 then
            (case json response of
               Inl e \<Rightarrow> (Inr None, [st_error ''Error decoding JSON response''])
             | Inr j \<Rightarrow>
                 (case subscript_key j ''meals'' of
                    Inl e \<Rightarrow> (Inl e, [])
                  | Inr meals \<Rightarrow>
                      (case py_iter meals of
                         Inl e \<Rightarrow> (Inl e, [])
                       | Inr ms \<Rightarrow>
                           (case comprehension (\<lambda>area. subscript_key area ''strArea'') ms of
                              Inl e \<Rightarrow> (Inl e, [])
                            | Inr names \<Rightarrow> (Inr (Some names), [])))))
          else (Inr None, [status_failed response]))"

text \<open>
  The loop of \<^verbatim>\<open>search_recipes_by_ingredients\<close>, with \<^verbatim>\<open>results\<close> as its accumulator. The
  only exceptions the \<^verbatim>\<open>try\<close> body can raise besides the \<^verbatim>\<open>ValueError\<close> of \<^verbatim>\<open>json()\<close> are
  those of the subscript and of \<^verbatim>\<open>extend\<close>, and \<^verbatim>\<open>except ValueError\<close> lets them through.
\<close>

fun search_loop :: "http \<Rightarrow> string list \<Rightarrow> pyval list \<Rightarrow> (exn + pyval list option) \<times> ui_event list" where
  "search_loop get [] results = (Inr (Some results), [])"
| "search_loop get (ingredient # ingredients) results =
     (case get (FilterByIngredient ingredient) of
        Inl e \<Rightarrow> (Inl e, [])
      | Inr response \<Rightarrow>
          if status_code response = 200 then
            (case json response of
               Inl e \<Rightarrow>
                 (Inr None, [st_error ''Error decoding JSON response'', st_text (resp_text response)])
             | Inr json_response \<Rightarrow>
                 (case subscript_key json_response ''meals'' of
                    Inl e \<Rightarrow> (Inl e, [])
                  | Inr meals \<Rightarrow>
                      if truthy meals then
                        (case py_iter meals of
                           Inl e \<Rightarrow> (Inl e, [])
                         | Inr ms \<Rightarrow> search_loop get ingredients (results @ ms))
                      else search_loop get ingredients results))
          else (Inr None, [status_failed response, st_text (resp_text response)]))"

definition search_recipes_by_ingredients ::
  "http \<Rightarrow> string list \<Rightarrow> (exn + pyval list option) \<times> ui_event list" where
  "search_recipes_by_ingredients get ingredients = search_loop get ingredients []"

definition search_recipes_by_category_and_area ::
  "http \<Rightarrow> pyval \<Rightarrow> pyval \<Rightarrow> (exn + pyval) \<times> ui_event list" where
  "search_recipes_by_category_and_area get category area =
     (case get (FilterByCategoryArea category area) of
        Inl e \<Rightarrow> (Inl e, [])
      | Inr response \<Rightarrow>
          if status_code response = 200 then
            (case json response of
               Inl e \<Rightarrow> (Inr PNone, [st_error ''Error decoding JSON response''])
             | Inr j \<Rightarrow>
                 (case subscript_key j ''meals'' of
                    Inl e \<Rightarrow> (Inl e, [])
                  | Inr meals \<Rightarrow> (Inr meals, [])))
          else (Inr PNone, [status_failed response]))"

text \<open>\<^verbatim>\<open>get_recipe_details\<close> is the one fetcher with \<^verbatim>\<open>except (ValueError, KeyError)\<close>.\<close>

definition get_recipe_details :: "http \<Rightarrow> pyval \<Rightarrow> (exn + pyval) \<times> ui_event list" where
  "get_recipe_details get recipe_id =
     (case get (Lookup recipe_id) of
        Inl e \<Rightarrow> (Inl e, [])
      | Inr response \<Rightarrow>
          if status_code response = 200 then
            (case json response of
               Inl e \<Rightarrow> (Inr PNone, [st_error ''Error decoding JSON response''])
             | Inr j \<Rightarrow>
                 (case subscript_key j ''meals'' of
                    Inl e \<Rightarrow>
                      if exn_cls e = ValueError \<or> exn_cls e = KeyError
                      then (Inr PNone, [st_error ''Error decoding JSON response''])
                      else (Inl e, [])
                  | Inr meals \<Rightarrow>
                      (case subscript_0 meals of
                         Inl e \<Rightarrow>
                           if exn_cls e = ValueError \<or> exn_cls e = KeyError
                           then (Inr PNone, [st_error ''Error decoding JSON response''])
                           else (Inl e, [])
                       | Inr meal \<Rightarrow> (Inr meal, []))))
          else (Inr PNone, [status_failed response]))"

section \<open>The ingredient normalizer\<close>

text \<open>Line 111 of \<^verbatim>\<open>normalize_ingredients\<close>: the names of the recognized ingredients. It
  raises when an entry is not a dict with the key \<^verbatim>\<open>strIngredient\<close>.\<close>

definition recognized_ingredient_names :: "pyval \<Rightarrow> exn + pyval list" where
  "recognized_ingredient_names recognized_ingredients =
     (case py_iter recognized_ingredients of
        Inl e \<Rightarrow> Inl e
      | Inr rs \<Rightarrow> comprehension (\<lambda>ingredient. subscript_key ingredient ''strIngredient'') rs)"

text \<open>The product names are the strings of the spreadsheet column; \<^verbatim>\<open>name in names\<close>
  compares a string with each entry by \<^verbatim>\<open>==\<close>.\<close>

definition normalize_ingredients :: "string list \<Rightarrow> pyval \<Rightarrow> exn + string list \<times> string list" where
  "normalize_ingredients product_names recognized_ingredients =
     (case recognized_ingredient_names recognized_ingredients of
        Inl e \<Rightarrow> Inl e
      | Inr names \<Rightarrow>
          Inr (filter (\<lambda>name. PStr name \<in> set names) product_names,
               filter (\<lambda>name. PStr name \<notin> set names) product_names))"

section \<open>Session state\<close>

text \<open>\<^verbatim>\<open>st.session_state\<close>: a key that has not been set is \<open>None\<close>.\<close>

record session_state =
  ss_history :: "string list option"
  ss_user_input :: "string option"
  ss_best_recipe :: "pyval option"

text \<open>One run of a tab: the exception that ended it, if any, the session state it leaves,
  and what it put on the page.\<close>

type_synonym run = "exn option \<times> session_state \<times> ui_event list"

section \<open>The best-recipe selector of the upload tab\<close>

text \<open>\<^verbatim>\<open>sum(1 for i in range(1, 21) if recipe_details.get(f'strIngredient{i}') in normalized_names)\<close>\<close>

fun count_matches :: "pyval \<Rightarrow> string list \<Rightarrow> nat list \<Rightarrow> exn + nat" where
  "count_matches recipe_details normalized_names [] = Inr 0"
| "count_matches recipe_details normalized_names (i # is) =
     (case py_get recipe_details (''strIngredient'' @ string_of_nat i) of
        Inl e \<Rightarrow> Inl e
      | Inr v \<Rightarrow>
          (case count_matches recipe_details normalized_names is of
             Inl e \<Rightarrow> Inl e
           | Inr k \<Rightarrow> Inr ((if py_in v normalized_names then 1 else 0) + k)))"

definition match_count :: "pyval \<Rightarrow> string list \<Rightarrow> exn + nat" where
  "match_count recipe_details normalized_names = count_matches recipe_details normalized_names [1..<21]"

text \<open>
  Lines 240 to 242, the first half of the loop body: look the candidate up and count. \<open>None\<close>
  is a candidate whose details are falsy (the lookup failed), which the loop passes over.
\<close>

definition score_candidate ::
  "http \<Rightarrow> string list \<Rightarrow> pyval \<Rightarrow> (exn + (pyval \<times> nat) option) \<times> ui_event list" where
  "score_candidate get normalized_names recipe =
     (case subscript_key recipe ''idMeal'' of
        Inl e \<Rightarrow> (Inl e, [])
      | Inr recipe_id \<Rightarrow>
          (case get_recipe_details get recipe_id of
             (Inl e, evs) \<Rightarrow> (Inl e, evs)
           | (Inr recipe_details, evs) \<Rightarrow>
               if truthy recipe_details then
                 (case match_count recipe_details normalized_names of
                    Inl e \<Rightarrow> (Inl e, evs)
                  | Inr n \<Rightarrow> (Inr (Some (recipe_details, n)), evs))
               else (Inr None, evs)))"

text \<open>Lines 239 to 245: the loop, with \<^verbatim>\<open>best_recipe\<close> and \<^verbatim>\<open>best_match_count\<close> as its state.\<close>

fun best_loop ::
  "http \<Rightarrow> string list \<Rightarrow> pyval list \<Rightarrow> pyval \<Rightarrow> nat \<Rightarrow> (exn + pyval \<times> nat) \<times> ui_event list" where
  "best_loop get normalized_names [] best_recipe best_match_count =
     (Inr (best_recipe, best_match_count), [])"
| "best_loop get normalized_names (recipe # recipes) best_recipe best_match_count =
     (case score_candidate get normalized_names recipe of
        (Inl e, evs) \<Rightarrow> (Inl e, evs)
      | (Inr None, evs) \<Rightarrow>
          (case best_loop get normalized_names recipes best_recipe best_match_count of
             (r, evs2) \<Rightarrow> (r, evs @ evs2))
      | (Inr (Some (recipe_details, n)), evs) \<Rightarrow>
          (case (if n > best_match_count
                 then best_loop get normalized_names recipes recipe_details n
                 else best_loop get normalized_names recipes best_recipe best_match_count) of
             (r, evs2) \<Rightarrow> (r, evs @ evs2)))"

definition recipes_unlocked :: ui_event where
  "recipes_unlocked =
     st_success ''Recipes unlocked! Head to the 'Recipe Generator' tab for the perfect match.''"

definition oops_no_recipes :: ui_event where
  "oops_no_recipes =
     st_write ''Oops! No recipes found with those ingredients. Time to get creative or try a different combo!''"

definition no_recipes_found :: ui_event where
  "no_recipes_found = st_write ''No recipes found. Time to get creative in the kitchen!''"

text \<open>
  Lines 233 to 252: what the upload tab does with the result of the search, \<open>None\<close> for
  Python's \<^verbatim>\<open>None\<close> and \<open>Some C\<close> for the list \<open>C\<close> of candidates.
\<close>

definition select_best_recipe ::
  "http \<Rightarrow> string list \<Rightarrow> pyval list option \<Rightarrow> session_state \<Rightarrow> run" where
  "select_best_recipe get normalized_names recipes st =
     (case recipes of
        Some (c # cs) \<Rightarrow>
          (case best_loop get normalized_names (c # cs) PNone 0 of
             (Inl e, evs) \<Rightarrow> (Some e, st, recipes_unlocked # evs)
           | (Inr (best_recipe, best_match_count), evs) \<Rightarrow>
               if truthy best_recipe
               then (None, st\<lparr>ss_best_recipe := Some best_recipe\<rparr>, recipes_unlocked # evs)
               else (None, st, recipes_unlocked # evs @ [oops_no_recipes]))
      | _ \<Rightarrow> (None, st, [no_recipes_found]))"

text \<open>
  \<^verbatim>\<open>upload_products_tab\<close>. The uploaded file is \<open>None\<close> when there is none, \<open>Some (Inl e)\<close>
  when pandas raises on it (\<^verbatim>\<open>read_excel\<close>, or the column \<^verbatim>\<open>Product Name\<close> is missing), and
  \<open>Some (Inr names)\<close> with the product names of that column otherwise.
\<close>

definition upload_products_tab ::
  "http \<Rightarrow> (exn + string list) option \<Rightarrow> bool \<Rightarrow> session_state \<Rightarrow> run" where
  "upload_products_tab get uploaded_file button st =
     (case uploaded_file of
        None \<Rightarrow> (None, st, [])
      | Some (Inl e) \<Rightarrow> (Some e, st, [])
      | Some (Inr product_names) \<Rightarrow>
          (case fetch_ingredient_list get of
             (Inl e, evs) \<Rightarrow> (Some e, st, evs)
           | (Inr recognized_ingredients, evs) \<Rightarrow>
               if truthy recognized_ingredients then
                 (case normalize_ingredients product_names recognized_ingredients of
                    Inl e \<Rightarrow> (Some e, st, evs)
                  | Inr (normalized_names, not_recognized_names) \<Rightarrow>
                      if button then
                        (case search_recipes_by_ingredients get normalized_names of
                           (Inl e, evs2) \<Rightarrow> (Some e, st, evs @ evs2)
                         | (Inr recipes, evs2) \<Rightarrow>
                             (case select_best_recipe get normalized_names recipes st of
                                (r, st2, evs3) \<Rightarrow> (r, st2, evs @ evs2 @ evs3)))
                      else (None, st, evs))
               else (None, st, evs)))"

section \<open>The filter tab\<close>

text \<open>\<^verbatim>\<open>["All"] + categories\<close> raises when the fetch returned \<^verbatim>\<open>None\<close>.\<close>

definition all_plus :: "pyval list option \<Rightarrow> exn + pyval list" where
  "all_plus names =
     (case names of
        None \<Rightarrow> Inl (Exn TypeError (''can only concatenate list (not '' @ [CHR 0x22] @ ''NoneType'' @ [CHR 0x22] @ '') to list''))
      | Some ns \<Rightarrow> Inr (PStr ''All'' # ns))"

text \<open>Lines 276 to 284: what the filter tab does with the result of the search.\<close>

definition pick_first_recipe :: "http \<Rightarrow> pyval \<Rightarrow> session_state \<Rightarrow> run" where
  "pick_first_recipe get recipes st =
     (if truthy recipes then
        (case subscript_0 recipes of
           Inl e \<Rightarrow> (Some e, st, [recipes_unlocked])
         | Inr best_recipe \<Rightarrow>
             if truthy best_recipe then
               (case subscript_key best_recipe ''idMeal'' of
                  Inl e \<Rightarrow> (Some e, st, [recipes_unlocked])
                | Inr recipe_id \<Rightarrow>
                    (case get_recipe_details get recipe_id of
                       (Inl e, evs) \<Rightarrow> (Some e, st, recipes_unlocked # evs)
                     | (Inr details, evs) \<Rightarrow>
                         (None, st\<lparr>ss_best_recipe := Some details\<rparr>, recipes_unlocked # evs)))
             else (None, st, [recipes_unlocked]))
      else (None, st, [oops_no_recipes]))"

text \<open>
  \<^verbatim>\<open>select_filters_tab\<close>. \<open>selected_category\<close> and \<open>selected_area\<close> are what the two select
  boxes return, one of the options each.
\<close>

definition select_filters_tab ::
  "http \<Rightarrow> pyval \<Rightarrow> pyval \<Rightarrow> bool \<Rightarrow> session_state \<Rightarrow> run" where
  "select_filters_tab get selected_category selected_area button st =
     (case fetch_category_list get of
        (Inl e, evs) \<Rightarrow> (Some e, st, evs)
      | (Inr categories, evs) \<Rightarrow>
          (case fetch_area_list get of
             (Inl e, evs2) \<Rightarrow> (Some e, st, evs @ evs2)
           | (Inr areas, evs2) \<Rightarrow>
               (case all_plus categories of
                  Inl e \<Rightarrow> (Some e, st, evs @ evs2)
                | Inr category_options \<Rightarrow>
                    (case all_plus areas of
                       Inl e \<Rightarrow> (Some e, st, evs @ evs2)
                     | Inr area_options \<Rightarrow>
                         if button then
                           if selected_category \<noteq> PStr ''All'' \<or> selected_area \<noteq> PStr ''All'' then
                             (case search_recipes_by_category_and_area get selected_category selected_area of
                                (Inl e, evs3) \<Rightarrow> (Some e, st, evs @ evs2 @ evs3)
                              | (Inr recipes, evs3) \<Rightarrow>
                                  (case pick_first_recipe get recipes st of
                                     (r, st2, evs4) \<Rightarrow> (r, st2, evs @ evs2 @ evs3 @ evs4)))
                           else
                             (None, st,
                              evs @ evs2 @ [st_error ''Pick a Food Category or Area for Recommendations.''])
                         else (None, st, evs @ evs2)))))"

section \<open>The chat responder\<close>

text \<open>
  The two libraries behind the chat. \<^verbatim>\<open>ollama.generate(model, prompt)\<close> answers with a reply
  object, given by its text fields, or raises; \<^verbatim>\<open>Ollama(model=...)\<close> builds a client or
  raises; \<^verbatim>\<open>llm.invoke(prompt)\<close> answers with a string or raises. What a library raises
  is an \<^verbatim>\<open>Exception\<close>.
\<close>

record 'llm chat_lib =
  ollama_generate :: "string \<Rightarrow> string \<Rightarrow> exn + (string \<times> string) list"
  Ollama :: "string \<Rightarrow> exn + 'llm"
  llm_invoke :: "'llm \<Rightarrow> string \<Rightarrow> exn + string"

definition error_occurred :: "exn \<Rightarrow> string" where
  "error_occurred e = ''An error occurred: '' @ exn_str e"

definition generate_response_gemma :: "'llm chat_lib \<Rightarrow> string \<Rightarrow> exn + string" where
  "generate_response_gemma lib prompt =
     (case ollama_generate lib ''gemma:2b'' prompt of
        Inl e \<Rightarrow> Inr (error_occurred e)
      | Inr response \<Rightarrow>
          (case map_of response ''response'' of
             None \<Rightarrow> Inr (error_occurred (Exn KeyError ([CHR 0x27] @ ''response'' @ [CHR 0x27])))
           | Some r \<Rightarrow> Inr r))"

definition generate_response_llama :: "'llm chat_lib \<Rightarrow> string \<Rightarrow> exn + string" where
  "generate_response_llama lib prompt =
     (case Ollama lib ''llama2'' of
        Inl e \<Rightarrow> Inr (error_occurred e)
      | Inr llm \<Rightarrow>
          (case llm_invoke lib llm prompt of
             Inl e \<Rightarrow> Inr (error_occurred e)
           | Inr response \<Rightarrow> Inr response))"

text \<open>The options of the select box \<^verbatim>\<open>Choose a Chef:\<close>\<close>

definition chef_options :: "string list" where
  "chef_options = [''Chef De-Code'', ''Chef App-etizer'']"

text \<open>The loop that displays the conversation\<close>

fun display_history :: "string list \<Rightarrow> ui_event list" where
  "display_history [] = []"
| "display_history (message # messages) =
     (if prefix ''Aspiring Chef:'' message then st_write message # display_history messages
      else if prefix ''Culinary Luminary:'' message then st_success message # display_history messages
      else display_history messages)"

text \<open>
  \<^verbatim>\<open>chatbot_tab\<close>. \<open>model_choice\<close> and \<open>user_input\<close> are what the select box and the text input
  return; \<open>input_changed\<close> says that the text was edited, in which case Streamlit has run the
  \<^verbatim>\<open>on_change\<close> callback before the script; \<open>button\<close> is \<^verbatim>\<open>st.button("Let's Cook")\<close>.
\<close>

definition chatbot_tab ::
  "'llm chat_lib \<Rightarrow> string \<Rightarrow> string \<Rightarrow> bool \<Rightarrow> bool \<Rightarrow> session_state \<Rightarrow> run" where
  "chatbot_tab lib model_choice user_input input_changed button st =
     (let st0 = (if input_changed then st\<lparr>ss_user_input := Some user_input\<rparr> else st);
          st1 = (if ss_history st0 = None then st0\<lparr>ss_history := Some []\<rparr> else st0);
          st2 = (if ss_user_input st1 = None then st1\<lparr>ss_user_input := Some []\<rparr> else st1)
      in if button \<and> user_input \<noteq> [] then
           (let st3 = st2\<lparr>ss_history := Some [''Aspiring Chef: '' @ user_input]\<rparr> in
            case (if model_choice = ''gemma:2b''
                  then generate_response_gemma lib user_input
                  else generate_response_llama lib user_input) of
              Inl e \<Rightarrow> (Some e, st3, [])
            | Inr bot_response \<Rightarrow>
                (let history = [''Aspiring Chef: '' @ user_input, ''Culinary Luminary: '' @ bot_response]
                 in (None, st3\<lparr>ss_history := Some history, ss_user_input := Some []\<rparr>,
                     display_history history)))
         else (None, st2, display_history (case ss_history st2 of None \<Rightarrow> [] | Some h \<Rightarrow> h)))"

section \<open>Example responses\<close>

text \<open>A small catalogue, a session and three chat libraries, on which the theorems below
  are run.\<close>

definition ok :: "string \<Rightarrow> pyval \<Rightarrow> exn + response" where
  "ok body v = Inr \<lparr>status_code = 200, resp_text = body, json_body = Some v\<rparr>"

definition empty_meals_db :: http where
  \<open>empty_meals_db req = ok ''{"meals": []}'' (PDict [(''meals'', PList [])])\<close>

definition no_key_db :: http where
  \<open>no_key_db req = ok ''{}'' (PDict [])\<close>

definition stub :: "string \<Rightarrow> string \<Rightarrow> pyval" where
  "stub recipe_id name = PDict [(''strMeal'', PStr name), (''idMeal'', PStr recipe_id)]"

definition chicken_rice :: pyval where
  "chicken_rice =
     PDict [(''idMeal'', PStr ''1''), (''strMeal'', PStr ''Chicken Rice''),
            (''strIngredient1'', PStr ''Chicken''), (''strIngredient2'', PStr ''Rice''),
            (''strIngredient3'', PStr ''''), (''strIngredient4'', PNone)]"

definition rice_chicken :: pyval where
  "rice_chicken =
     PDict [(''idMeal'', PStr ''2''), (''strMeal'', PStr ''Rice Chicken''),
            (''strIngredient1'', PStr ''Rice''), (''strIngredient2'', PStr ''Chicken''),
            (''strIngredient3'', PStr ''Pepper'')]"

definition salad :: pyval where
  "salad =
     PDict [(''idMeal'', PStr ''4''), (''strMeal'', PStr ''Salad''),
            (''strIngredient1'', PStr ''Lettuce''), (''strIngredient2'', PNone)]"

definition mealdb :: http where
  \<open>mealdb req =
     (case req of
        ListIngredients \<Rightarrow>
          ok ''{"meals": [{"strIngredient": "Chicken"}, {"strIngredient": "Rice"}, {"strIngredient": "Lettuce"}]}''
            (PDict [(''meals'', PList [PDict [(''strIngredient'', PStr ''Chicken'')],
                                      PDict [(''strIngredient'', PStr ''Rice'')],
                                      PDict [(''strIngredient'', PStr ''Lettuce'')]])])
      | ListCategories \<Rightarrow>
          ok ''{"categories": [{"strCategory": "Chicken"}]}''
            (PDict [(''categories'', PList [PDict [(''strCategory'', PStr ''Chicken'')]])])
      | ListAreas \<Rightarrow>
          ok ''{"meals": [{"strArea": "Indian"}]}''
            (PDict [(''meals'', PList [PDict [(''strArea'', PStr ''Indian'')]])])
      | FilterByIngredient ingredient \<Rightarrow>
          if ingredient = ''Chicken'' then
            ok ''{"meals": [{"strMeal": "Gone", "idMeal": "3"}, {"strMeal": "Chicken Rice", "idMeal": "1"}]}''
              (PDict [(''meals'', PList [stub ''3'' ''Gone'', stub ''1'' ''Chicken Rice''])])
          else ok ''{"meals": null}'' (PDict [(''meals'', PNone)])
      | FilterByCategoryArea category area \<Rightarrow>
          ok ''{"meals": [{"strMeal": "Rice Chicken", "idMeal": "2"}, {"strMeal": "Chicken Rice", "idMeal": "1"}]}''
            (PDict [(''meals'', PList [stub ''2'' ''Rice Chicken'', stub ''1'' ''Chicken Rice''])])
      | Lookup recipe_id \<Rightarrow>
          if recipe_id = PStr ''1'' then
            ok ''{"meals": [{"idMeal": "1", "strMeal": "Chicken Rice", "strIngredient1": "Chicken", "strIngredient2": "Rice", "strIngredient3": "", "strIngredient4": null}]}''
              (PDict [(''meals'', PList [chicken_rice])])
          else if recipe_id = PStr ''2'' then
            ok ''{"meals": [{"idMeal": "2", "strMeal": "Rice Chicken", "strIngredient1": "Rice", "strIngredient2": "Chicken", "strIngredient3": "Pepper"}]}''
              (PDict [(''meals'', PList [rice_chicken])])
          else if recipe_id = PStr ''4'' then
            ok ''{"meals": [{"idMeal": "4", "strMeal": "Salad", "strIngredient1": "Lettuce", "strIngredient2": null}]}''
              (PDict [(''meals'', PList [salad])])
          else Inr \<lparr>status_code = 500, resp_text = ''Internal Server Error'', json_body = None\<rparr>)\<close>

definition down_db :: http where
  "down_db req = Inr \<lparr>status_code = 503, resp_text = ''Service Unavailable'', json_body = None\<rparr>"

definition filter_down_db :: http where
  "filter_down_db req =
     (case req of
        FilterByIngredient ingredient \<Rightarrow> down_db req
      | FilterByCategoryArea category area \<Rightarrow> down_db req
      | _ \<Rightarrow> mealdb req)"

definition salad_session :: session_state where
  "salad_session = \<lparr>ss_history = None, ss_user_input = None, ss_best_recipe = Some salad\<rparr>"

definition old_chat_session :: session_state where
  "old_chat_session =
     \<lparr>ss_history = Some [''Aspiring Chef: Bread?'', ''Culinary Luminary: Bake it.''],
      ss_user_input = Some [], ss_best_recipe = None\<rparr>"

definition fresh_session :: session_state where
  "fresh_session = \<lparr>ss_history = None, ss_user_input = None, ss_best_recipe = None\<rparr>"

definition offline_lib :: "string chat_lib" where
  "offline_lib =
     \<lparr>ollama_generate = (\<lambda>model prompt. Inl (Exn LibraryError ''Failed to connect to Ollama'')),
      Ollama = (\<lambda>model. Inr model),
      llm_invoke = (\<lambda>llm prompt. Inl (Exn LibraryError ''Connection refused''))\<rparr>"

definition unbuilt_lib :: "string chat_lib" where
  "unbuilt_lib = offline_lib\<lparr>Ollama := (\<lambda>model. Inl (Exn ValueError ''Could not import ollama''))\<rparr>"

definition working_lib :: "string chat_lib" where
  "working_lib =
     \<lparr>ollama_generate = (\<lambda>model prompt. Inr [(''model'', model), (''response'', ''Stew it.'')]),
      Ollama = (\<lambda>model. Inr model),
      llm_invoke = (\<lambda>llm prompt. Inr ''Roast it.'')\<rparr>"

section \<open>The selection loop\<close>

lemma score_candidate_SomeD:
  assumes "fst (score_candidate get N c) = Inr (Some (d, n))"
  shows "truthy d \<and> match_count d N = Inr n
    \<and> (\<exists>recipe_id. subscript_key c ''idMeal'' = Inr recipe_id
          \<and> fst (get_recipe_details get recipe_id) = Inr d)"
  using assms
  by (auto simp: score_candidate_def split: sum.splits prod.splits if_splits)

lemma fst_best_loop_Nil:
  "fst (best_loop get N [] b k) = Inr (b, k)"
  by simp

lemma fst_best_loop_Cons:
  "fst (best_loop get N (c # C) b k) =
     (case fst (score_candidate get N c) of
        Inl e \<Rightarrow> Inl e
      | Inr None \<Rightarrow> fst (best_loop get N C b k)
      | Inr (Some (d, n)) \<Rightarrow>
          if n > k then fst (best_loop get N C d n) else fst (best_loop get N C b k))"
  by (cases "score_candidate get N c")
    (auto split: sum.splits option.splits prod.splits)

lemma best_loop_result:
  "fst (best_loop get N C b k) = Inr (b', k') \<Longrightarrow>
     (b' = b \<and> k' = k)
     \<or> (k < k' \<and> (\<exists>c\<in>set C. fst (score_candidate get N c) = Inr (Some (b', k'))))"
proof (induction C arbitrary: b k)
  case Nil
  then show ?case by simp
next
  case (Cons c C)
  show ?case
  proof (cases "fst (score_candidate get N c)")
    case (Inl e)
    with Cons.prems show ?thesis by (simp add: fst_best_loop_Cons del: best_loop.simps)
  next
    case (Inr o1)
    show ?thesis
    proof (cases o1)
      case None
      with Inr Cons.prems have "fst (best_loop get N C b k) = Inr (b', k')"
        by (simp add: fst_best_loop_Cons del: best_loop.simps)
      from Cons.IH [OF this] show ?thesis by auto
    next
      case (Some dn)
      obtain d n where dn: "dn = (d, n)" by (cases dn)
      show ?thesis
      proof (cases "k < n")
        case True
        with Inr Some dn Cons.prems have "fst (best_loop get N C d n) = Inr (b', k')"
          by (simp add: fst_best_loop_Cons del: best_loop.simps)
        from Cons.IH [OF this] True Inr Some dn show ?thesis by auto
      next
        case False
        with Inr Some dn Cons.prems have "fst (best_loop get N C b k) = Inr (b', k')"
          by (simp add: fst_best_loop_Cons del: best_loop.simps)
        from Cons.IH [OF this] show ?thesis by auto
      qed
    qed
  qed
qed

lemma best_loop_keeps:
  assumes "\<forall>c\<in>set C. \<forall>d n. fst (score_candidate get N c) = Inr (Some (d, n)) \<longrightarrow> n \<le> k"
    and "fst (best_loop get N C b k) = Inr (b', k')"
  shows "b' = b \<and> k' = k"
  using best_loop_result [OF assms(2)] assms(1) by fastforce

lemma best_loop_append:
  "fst (best_loop get N (xs @ ys) b k) =
     (case fst (best_loop get N xs b k) of
        Inl e \<Rightarrow> Inl e
      | Inr (b1, k1) \<Rightarrow> fst (best_loop get N ys b1 k1))"
proof (induction xs arbitrary: b k)
  case Nil
  then show ?case by simp
next
  case (Cons c xs)
  have "fst (best_loop get N ((c # xs) @ ys) b k) = fst (best_loop get N (c # (xs @ ys)) b k)"
    by simp
  also have "\<dots> = (case fst (best_loop get N (c # xs) b k) of
        Inl e \<Rightarrow> Inl e
      | Inr (b1, k1) \<Rightarrow> fst (best_loop get N ys b1 k1))"
    unfolding fst_best_loop_Cons
    by (simp add: Cons.IH split: sum.splits option.splits prod.splits)
  finally show ?case .
qed

lemma best_loop_skip:
  assumes "fst (score_candidate get N c) = Inr None"
  shows "fst (best_loop get N (c # C) b k) = fst (best_loop get N C b k)"
  using assms by (simp add: fst_best_loop_Cons del: best_loop.simps)

lemma score_candidate_failure:
  assumes "subscript_key c ''idMeal'' = Inr recipe_id"
    and "fst (get_recipe_details get recipe_id) = Inr v" and "\<not> truthy v"
  shows "fst (score_candidate get N c) = Inr None"
  using assms by (auto simp: score_candidate_def split: prod.splits sum.splits)

lemma select_best_recipe_loop:
  "fst (select_best_recipe get N (Some C) st) =
     (case fst (best_loop get N C PNone 0) of Inl e \<Rightarrow> Some e | Inr bk \<Rightarrow> None)"
  "fst (snd (select_best_recipe get N (Some C) st)) =
     (case fst (best_loop get N C PNone 0) of
        Inl e \<Rightarrow> st
      | Inr (b, k) \<Rightarrow> if truthy b then st\<lparr>ss_best_recipe := Some b\<rparr> else st)"
  by (cases C; auto simp: select_best_recipe_def split: prod.splits sum.splits)+

subsection \<open>The overlap count\<close>

lemma count_matches_dict:
  "count_matches (PDict kvs) N is =
     Inr (length (filter (\<lambda>i. py_in (case map_of kvs (''strIngredient'' @ string_of_nat i) of
                                       None \<Rightarrow> PNone | Some v \<Rightarrow> v) N) is))"
  by (induction "is") auto

lemma py_in_slot:
  "py_in (case map_of kvs key of None \<Rightarrow> PNone | Some v \<Rightarrow> v) N
     \<longleftrightarrow> (\<exists>s. map_of kvs key = Some (PStr s) \<and> s \<in> set N)"
proof (cases "map_of kvs key")
  case None
  then show ?thesis by simp
next
  case (Some v)
  then show ?thesis by (cases v) auto
qed

lemma match_count_dict:
  "match_count (PDict kvs) N =
     Inr (card {i. 1 \<le> i \<and> i \<le> 20
                 \<and> (\<exists>s. map_of kvs (''strIngredient'' @ string_of_nat i) = Some (PStr s) \<and> s \<in> set N)})"
proof -
  let ?P = "\<lambda>i. \<exists>s. map_of kvs (''strIngredient'' @ string_of_nat i) = Some (PStr s) \<and> s \<in> set N"
  have "length (filter ?P [1..<21]) = card ({i. ?P i} \<inter> set [1..<21])"
    by (rule distinct_length_filter) simp
  also have "{i. ?P i} \<inter> set [1..<21] = {i. 1 \<le> i \<and> i \<le> 20 \<and> ?P i}"
    by auto
  finally show ?thesis
    by (simp add: match_count_def count_matches_dict py_in_slot)
qed

lemma match_count_not_dict:
  assumes "\<And>kvs. d \<noteq> PDict kvs"
  shows "\<exists>e. match_count d N = Inl e"
proof -
  have "[1..<21] = (1::nat) # [2..<21]"
    by (simp add: upt_conv_Cons)
  then have "match_count d N = count_matches d N (1 # [2..<21])"
    by (simp add: match_count_def)
  moreover from assms have "\<exists>e. count_matches d N (1 # [2..<21]) = Inl e"
    by (cases d) auto
  ultimately show ?thesis by simp
qed

lemma match_count_InrD:
  assumes "match_count d N = Inr n"
  shows "\<exists>kvs. d = PDict kvs
    \<and> n = card {i. 1 \<le> i \<and> i \<le> 20
                 \<and> (\<exists>s. map_of kvs (''strIngredient'' @ string_of_nat i) = Some (PStr s) \<and> s \<in> set N)}"
proof (cases "\<exists>kvs. d = PDict kvs")
  case True
  then obtain kvs where "d = PDict kvs" by blast
  with assms match_count_dict [of kvs N] show ?thesis by simp
next
  case False
  then have "\<exists>e. match_count d N = Inl e" by (intro match_count_not_dict) blast
  with assms show ?thesis by simp
qed

section \<open>The chat backends return\<close>

lemma generate_response_gemma_returns:
  "\<exists>s. generate_response_gemma lib prompt = Inr s"
  by (simp add: generate_response_gemma_def split: sum.splits option.splits)

lemma generate_response_llama_returns:
  "\<exists>s. generate_response_llama lib prompt = Inr s"
  by (simp add: generate_response_llama_def split: sum.splits)

section \<open>The claims\<close>

text \<open>
  C1. Whatever the candidates \<open>C\<close> and the normalized names \<open>N\<close>, the selector of the upload
  tab either leaves the session as it was or stores the details of a candidate of \<open>C\<close> whose
  overlap count, the number of the slots \<^verbatim>\<open>strIngredient1\<close> to \<^verbatim>\<open>strIngredient20\<close> whose
  value is in \<open>N\<close>, is positive. When every candidate counts 0, and when \<open>C\<close> is empty,
  nothing is stored, and a run that ends normally ends on one of the two "no recipes"
  messages.
\<close>

theorem selector_needs_positive_overlap:
  assumes "select_best_recipe get N (Some C) st = (r, st', evs)"
  shows "(st' = st
          \<or> (\<exists>c\<in>set C. \<exists>kvs n.
                fst (score_candidate get N c) = Inr (Some (PDict kvs, n)) \<and> 0 < n
                \<and> n = card {i. 1 \<le> i \<and> i \<le> 20
                        \<and> (\<exists>s. map_of kvs (''strIngredient'' @ string_of_nat i) = Some (PStr s)
                                \<and> s \<in> set N)}
                \<and> st' = st\<lparr>ss_best_recipe := Some (PDict kvs)\<rparr>))
    \<and> ((\<forall>c\<in>set C. \<forall>d n. fst (score_candidate get N c) = Inr (Some (d, n)) \<longrightarrow> n = 0) \<longrightarrow>
          st' = st \<and> (r = None \<longrightarrow> evs \<noteq> [] \<and> last evs \<in> {no_recipes_found, oops_no_recipes}))"
proof (cases C)
  case Nil
  with assms show ?thesis by (auto simp: select_best_recipe_def)
next
  case (Cons c cs)
  obtain res evs1 where loop: "best_loop get N C PNone 0 = (res, evs1)"
    by (cases "best_loop get N C PNone 0")
  show ?thesis
  proof (cases res)
    case (Inl e)
    with assms Cons loop show ?thesis by (auto simp: select_best_recipe_def)
  next
    case (Inr bk)
    obtain b k where bk: "bk = (b, k)" by (cases bk)
    from loop Inr bk have "fst (best_loop get N C PNone 0) = Inr (b, k)" by simp
    from best_loop_result [OF this]
    consider (kept) "b = PNone" "k = 0"
      | (found) c' where "0 < k" "c' \<in> set C" "fst (score_candidate get N c') = Inr (Some (b, k))"
      by blast
    then show ?thesis
    proof cases
      case kept
      with assms Cons loop Inr bk show ?thesis by (auto simp: select_best_recipe_def)
    next
      case found
      from score_candidate_SomeD [OF found(3)]
      have t: "truthy b" and m: "match_count b N = Inr k" by simp_all
      from match_count_InrD [OF m] obtain kvs where
        b: "b = PDict kvs"
        and k: "k = card {i. 1 \<le> i \<and> i \<le> 20
                        \<and> (\<exists>s. map_of kvs (''strIngredient'' @ string_of_nat i) = Some (PStr s)
                                \<and> s \<in> set N)}"
        by blast
      from assms Cons loop Inr bk t have st': "st' = st\<lparr>ss_best_recipe := Some b\<rparr>"
        by (auto simp: select_best_recipe_def)
      have first: "\<exists>c\<in>set C. \<exists>kvs n.
                fst (score_candidate get N c) = Inr (Some (PDict kvs, n)) \<and> 0 < n
                \<and> n = card {i. 1 \<le> i \<and> i \<le> 20
                        \<and> (\<exists>s. map_of kvs (''strIngredient'' @ string_of_nat i) = Some (PStr s)
                                \<and> s \<in> set N)}
                \<and> st' = st\<lparr>ss_best_recipe := Some (PDict kvs)\<rparr>"
        using found b k st' by blast
      have second: "\<not> (\<forall>c\<in>set C. \<forall>d n. fst (score_candidate get N c) = Inr (Some (d, n)) \<longrightarrow> n = 0)"
        using found by fastforce
      from first second show ?thesis by blast
    qed
  qed
qed

theorem selector_needs_positive_overlap_witness:
  "fst (score_candidate mealdb [''Chicken'', ''Rice''] (stub ''4'' ''Salad'')) = Inr (Some (salad, 0))
   \<and> fst (score_candidate mealdb [''Chicken'', ''Rice''] (stub ''3'' ''Gone'')) = Inr None
   \<and> select_best_recipe mealdb [''Chicken'', ''Rice''] (Some [stub ''4'' ''Salad'', stub ''3'' ''Gone''])
        salad_session
      = (None, salad_session,
         [recipes_unlocked, st_error ''API request failed with status code 500'', oops_no_recipes])
   \<and> last [recipes_unlocked, st_error ''API request failed with status code 500'', oops_no_recipes]
        \<in> {no_recipes_found, oops_no_recipes}
   \<and> select_best_recipe mealdb [''Chicken'', ''Rice''] (Some [stub ''4'' ''Salad'', stub ''1'' ''Chicken Rice''])
        salad_session
      = (None, salad_session\<lparr>ss_best_recipe := Some chicken_rice\<rparr>, [recipes_unlocked])
   \<and> (\<exists>c n. fst (score_candidate mealdb [''Chicken'', ''Rice''] c) = Inr (Some (chicken_rice, n)) \<and> 0 < n)"
proof -
  have run: "select_best_recipe mealdb [''Chicken'', ''Rice''] (Some [stub ''4'' ''Salad'', stub ''3'' ''Gone''])
        salad_session
      = (None, salad_session,
         [recipes_unlocked, st_error ''API request failed with status code 500'', oops_no_recipes])"
    by code_simp
  have s4: "fst (score_candidate mealdb [''Chicken'', ''Rice''] (stub ''4'' ''Salad'')) = Inr (Some (salad, 0))"
    by code_simp
  have s3: "fst (score_candidate mealdb [''Chicken'', ''Rice''] (stub ''3'' ''Gone'')) = Inr None"
    by code_simp
  have zero: "\<forall>c\<in>set [stub ''4'' ''Salad'', stub ''3'' ''Gone''].
      \<forall>d n. fst (score_candidate mealdb [''Chicken'', ''Rice''] c) = Inr (Some (d, n)) \<longrightarrow> n = 0"
    by (simp add: s4 s3)
  from selector_needs_positive_overlap [OF run] zero
  have "last [recipes_unlocked, st_error ''API request failed with status code 500'', oops_no_recipes]
        \<in> {no_recipes_found, oops_no_recipes}"
    by blast
  note zero_case = this
  have run2: "select_best_recipe mealdb [''Chicken'', ''Rice''] (Some [stub ''4'' ''Salad'', stub ''1'' ''Chicken Rice''])
        salad_session
      = (None, salad_session\<lparr>ss_best_recipe := Some chicken_rice\<rparr>, [recipes_unlocked])"
    by code_simp
  have changed: "salad_session\<lparr>ss_best_recipe := Some chicken_rice\<rparr> \<noteq> salad_session"
    by (simp add: salad_session_def chicken_rice_def salad_def)
  from selector_needs_positive_overlap [OF run2] changed
  obtain c kvs n where "fst (score_candidate mealdb [''Chicken'', ''Rice''] c) = Inr (Some (PDict kvs, n))"
    and "0 < n"
    and "salad_session\<lparr>ss_best_recipe := Some chicken_rice\<rparr>
       = salad_session\<lparr>ss_best_recipe := Some (PDict kvs)\<rparr>"
    by blast
  then have "\<exists>c n. fst (score_candidate mealdb [''Chicken'', ''Rice''] c) = Inr (Some (chicken_rice, n)) \<and> 0 < n"
    by (auto simp: salad_session_def)
  with run s4 s3 zero_case run2 show ?thesis by blast
qed

text \<open>
  C2. The lookup of a recipe id answers with status 200 and the body \<^verbatim>\<open>{"meals": []}\<close>.
  The claim is that \<open>get_recipe_details\<close> then reports an error and returns the failure
  value; the function raises \<^verbatim>\<open>IndexError\<close> instead, from \<^verbatim>\<open>['meals'][0]\<close>, which
  \<^verbatim>\<open>except (ValueError, KeyError)\<close> does not catch, and reports nothing.
\<close>

theorem get_recipe_details_empty_meals_raises:
  "get_recipe_details empty_meals_db (PStr ''52772'') =
     (Inl (Exn IndexError ''list index out of range''), [])"
  by (simp add: get_recipe_details_def empty_meals_db_def ok_def json_def)

text \<open>
  C3. Every request answers with status 200 and the body \<^verbatim>\<open>{}\<close>. The claim is that every
  fetch operation then returns the failure value with a message. Only \<open>get_recipe_details\<close>
  does; the other five catch \<^verbatim>\<open>ValueError\<close> alone and raise the \<^verbatim>\<open>KeyError\<close> of the
  missing key.
\<close>

theorem fetchers_missing_key_raise:
  "fetch_ingredient_list no_key_db = (Inl (Exn KeyError ([CHR 0x27] @ ''meals'' @ [CHR 0x27])), [])
   \<and> fetch_category_list no_key_db = (Inl (Exn KeyError ([CHR 0x27] @ ''categories'' @ [CHR 0x27])), [])
   \<and> fetch_area_list no_key_db = (Inl (Exn KeyError ([CHR 0x27] @ ''meals'' @ [CHR 0x27])), [])
   \<and> search_recipes_by_ingredients no_key_db [''Chicken'']
       = (Inl (Exn KeyError ([CHR 0x27] @ ''meals'' @ [CHR 0x27])), [])
   \<and> search_recipes_by_category_and_area no_key_db (PStr ''Seafood'') (PStr ''All'')
       = (Inl (Exn KeyError ([CHR 0x27] @ ''meals'' @ [CHR 0x27])), [])
   \<and> get_recipe_details no_key_db (PStr ''52772'')
       = (Inr PNone, [st_error ''Error decoding JSON response''])"
  by (simp add: fetch_ingredient_list_def fetch_category_list_def fetch_area_list_def
      search_recipes_by_ingredients_def search_recipes_by_category_and_area_def
      get_recipe_details_def no_key_db_def ok_def json_def)

text \<open>
  C4. The claim fails: in the upload tab a lookup that returns the failure value only makes
  the loop pass over that candidate, and the tab goes on to store another one. Here the
  search for \<^verbatim>\<open>Chicken\<close> returns the candidates 3 and 1, the lookup of 3 fails with status
  500, and the tab replaces the stored salad by the details of 1.
\<close>

theorem lookup_failure_still_selects:
  "fst (search_recipes_by_ingredients mealdb [''Chicken''])
     = Inr (Some [stub ''3'' ''Gone'', stub ''1'' ''Chicken Rice''])
   \<and> get_recipe_details mealdb (PStr ''3'')
     = (Inr PNone, [st_error ''API request failed with status code 500''])
   \<and> ss_best_recipe salad_session = Some salad
   \<and> ss_best_recipe (fst (snd (upload_products_tab mealdb (Some (Inr [''Chicken'', ''Soap''])) True salad_session)))
     = Some chicken_rice
   \<and> chicken_rice \<noteq> salad"
  by code_simp

text \<open>
  C4, as the code has it. The session is left as it was whenever \<open>fetch_ingredient_list\<close>
  or \<open>search_recipes_by_ingredients\<close> returns the failure value in the upload tab, and
  whenever \<open>fetch_category_list\<close>, \<open>fetch_area_list\<close> or
  \<open>search_recipes_by_category_and_area\<close> does in the filter tab. In the upload tab a
  candidate whose lookup returns the failure value is passed over: the run ends, and leaves
  the session, as it would without that candidate in the list.
\<close>

theorem fetch_failure_keeps_selection:
  "(fst (fetch_ingredient_list get) = Inr PNone \<longrightarrow>
      fst (snd (upload_products_tab get uploaded_file button st)) = st)
   \<and> (\<forall>P R N U. uploaded_file = Some (Inr P) \<and> fst (fetch_ingredient_list get) = Inr R
        \<and> normalize_ingredients P R = Inr (N, U)
        \<and> fst (search_recipes_by_ingredients get N) = Inr None \<longrightarrow>
      fst (snd (upload_products_tab get uploaded_file button st)) = st)
   \<and> (fst (fetch_category_list get) = Inr None \<or> fst (fetch_area_list get) = Inr None \<longrightarrow>
      fst (snd (select_filters_tab get selected_category selected_area button st)) = st)
   \<and> (fst (search_recipes_by_category_and_area get selected_category selected_area) = Inr PNone \<longrightarrow>
      fst (snd (select_filters_tab get selected_category selected_area button st)) = st)
   \<and> (\<forall>recipe_id. subscript_key c ''idMeal'' = Inr recipe_id
        \<and> fst (get_recipe_details get recipe_id) = Inr PNone \<longrightarrow>
      fst (select_best_recipe get N' (Some (pre @ c # post)) st)
        = fst (select_best_recipe get N' (Some (pre @ post)) st)
      \<and> fst (snd (select_best_recipe get N' (Some (pre @ c # post)) st))
        = fst (snd (select_best_recipe get N' (Some (pre @ post)) st)))"
proof (intro conjI allI impI)
  assume "fst (fetch_ingredient_list get) = Inr PNone"
  then show "fst (snd (upload_products_tab get uploaded_file button st)) = st"
    by (cases "fetch_ingredient_list get")
      (auto simp: upload_products_tab_def split: option.splits sum.splits)
next
  fix P R N U
  assume "uploaded_file = Some (Inr P) \<and> fst (fetch_ingredient_list get) = Inr R
        \<and> normalize_ingredients P R = Inr (N, U)
        \<and> fst (search_recipes_by_ingredients get N) = Inr None"
  then show "fst (snd (upload_products_tab get uploaded_file button st)) = st"
    by (cases "fetch_ingredient_list get"; cases "search_recipes_by_ingredients get N")
      (auto simp: upload_products_tab_def select_best_recipe_def)
next
  assume "fst (fetch_category_list get) = Inr None \<or> fst (fetch_area_list get) = Inr None"
  then show "fst (snd (select_filters_tab get selected_category selected_area button st)) = st"
    by (cases "fetch_category_list get"; cases "fetch_area_list get")
      (auto simp: select_filters_tab_def all_plus_def split: sum.splits option.splits)
next
  assume "fst (search_recipes_by_category_and_area get selected_category selected_area) = Inr PNone"
  then show "fst (snd (select_filters_tab get selected_category selected_area button st)) = st"
    by (cases "fetch_category_list get"; cases "fetch_area_list get";
        cases "search_recipes_by_category_and_area get selected_category selected_area")
      (auto simp: select_filters_tab_def pick_first_recipe_def split: sum.splits option.splits)
next
  fix recipe_id
  assume "subscript_key c ''idMeal'' = Inr recipe_id
        \<and> fst (get_recipe_details get recipe_id) = Inr PNone"
  then have k: "subscript_key c ''idMeal'' = Inr recipe_id"
    and g: "fst (get_recipe_details get recipe_id) = Inr PNone"
    by simp_all
  have "fst (score_candidate get N' c) = Inr None"
    by (rule score_candidate_failure [OF k g]) simp
  then have skip: "\<And>b k. fst (best_loop get N' (c # post) b k) = fst (best_loop get N' post b k)"
    by (rule best_loop_skip)
  have "fst (best_loop get N' (pre @ c # post) PNone 0) = fst (best_loop get N' (pre @ post) PNone 0)"
    by (simp add: best_loop_append skip del: best_loop.simps split: sum.splits)
  then show "fst (select_best_recipe get N' (Some (pre @ c # post)) st)
        = fst (select_best_recipe get N' (Some (pre @ post)) st)"
    and "fst (snd (select_best_recipe get N' (Some (pre @ c # post)) st))
        = fst (snd (select_best_recipe get N' (Some (pre @ post)) st))"
    by (simp_all add: select_best_recipe_loop)
qed

theorem fetch_failure_keeps_selection_witness:
  "fst (fetch_ingredient_list down_db) = Inr PNone
   \<and> fst (snd (upload_products_tab down_db (Some (Inr [''Chicken'', ''Soap''])) True salad_session)) = salad_session
   \<and> fst (search_recipes_by_ingredients filter_down_db [''Chicken'']) = Inr None
   \<and> fst (snd (upload_products_tab filter_down_db (Some (Inr [''Chicken'', ''Soap''])) True salad_session)) = salad_session
   \<and> fst (fetch_category_list down_db) = Inr None
   \<and> fst (snd (select_filters_tab down_db (PStr ''Chicken'') (PStr ''All'') True salad_session)) = salad_session
   \<and> fst (search_recipes_by_category_and_area filter_down_db (PStr ''Chicken'') (PStr ''All'')) = Inr PNone
   \<and> fst (snd (select_filters_tab filter_down_db (PStr ''Chicken'') (PStr ''All'') True salad_session)) = salad_session
   \<and> fst (get_recipe_details mealdb (PStr ''3'')) = Inr PNone
   \<and> fst (snd (select_best_recipe mealdb [''Chicken''] (Some ([stub ''4'' ''Salad''] @ stub ''3'' ''Gone'' # [stub ''1'' ''Chicken Rice''])) salad_session))
       = fst (snd (select_best_recipe mealdb [''Chicken''] (Some ([stub ''4'' ''Salad''] @ [stub ''1'' ''Chicken Rice''])) salad_session))"
proof -
  have h1: "fst (fetch_ingredient_list down_db) = Inr PNone"
    by code_simp
  have h2: "fst (fetch_ingredient_list filter_down_db)
          = Inr (PList [PDict [(''strIngredient'', PStr ''Chicken'')],
                        PDict [(''strIngredient'', PStr ''Rice'')],
                        PDict [(''strIngredient'', PStr ''Lettuce'')]])
      \<and> normalize_ingredients [''Chicken'', ''Soap'']
            (PList [PDict [(''strIngredient'', PStr ''Chicken'')],
                    PDict [(''strIngredient'', PStr ''Rice'')],
                    PDict [(''strIngredient'', PStr ''Lettuce'')]])
          = Inr ([''Chicken''], [''Soap''])
      \<and> fst (search_recipes_by_ingredients filter_down_db [''Chicken'']) = Inr None"
    by code_simp
  have h3: "fst (fetch_category_list down_db) = Inr None"
    by code_simp
  have h4: "fst (search_recipes_by_category_and_area filter_down_db (PStr ''Chicken'') (PStr ''All'')) = Inr PNone"
    by code_simp
  have h5: "subscript_key (stub ''3'' ''Gone'') ''idMeal'' = Inr (PStr ''3'')
      \<and> fst (get_recipe_details mealdb (PStr ''3'')) = Inr PNone"
    by code_simp
  note a = fetch_failure_keeps_selection [where get = down_db
      and uploaded_file = "Some (Inr [''Chicken'', ''Soap''])" and button = True
      and st = salad_session and selected_category = "PStr ''Chicken''"
      and selected_area = "PStr ''All''"]
  note b = fetch_failure_keeps_selection [where get = filter_down_db
      and uploaded_file = "Some (Inr [''Chicken'', ''Soap''])" and button = True
      and st = salad_session and selected_category = "PStr ''Chicken''"
      and selected_area = "PStr ''All''"]
  note c = fetch_failure_keeps_selection [where get = mealdb and c = "stub ''3'' ''Gone''"
      and N' = "[''Chicken'']" and pre = "[stub ''4'' ''Salad'']"
      and post = "[stub ''1'' ''Chicken Rice'']" and st = salad_session]
  from a h1 have 1: "fst (snd (upload_products_tab down_db (Some (Inr [''Chicken'', ''Soap''])) True salad_session)) = salad_session"
    by blast
  from b h2 have 2: "fst (snd (upload_products_tab filter_down_db (Some (Inr [''Chicken'', ''Soap''])) True salad_session)) = salad_session"
    by blast
  from a h3 have 3: "fst (snd (select_filters_tab down_db (PStr ''Chicken'') (PStr ''All'') True salad_session)) = salad_session"
    by blast
  from b h4 have 4: "fst (snd (select_filters_tab filter_down_db (PStr ''Chicken'') (PStr ''All'') True salad_session)) = salad_session"
    by blast
  from c h5 have 5: "fst (snd (select_best_recipe mealdb [''Chicken''] (Some ([stub ''4'' ''Salad''] @ stub ''3'' ''Gone'' # [stub ''1'' ''Chicken Rice''])) salad_session))
       = fst (snd (select_best_recipe mealdb [''Chicken''] (Some ([stub ''4'' ''Salad''] @ [stub ''1'' ''Chicken Rice''])) salad_session))"
    by blast
  from h1 h2 h3 h4 h5 1 2 3 4 5 show ?thesis by blast
qed

text \<open>
  C5. When the recognized ingredients are a list of entries that each have a name, so that
  line 111 gives the list \<open>names\<close>, \<open>normalize_ingredients\<close> returns the product names that
  are among \<open>names\<close> and the product names that are not, by equality of strings. Together
  the two lists hold every product name as often as the input does, no name is in both, and
  each list keeps the order of the input.
\<close>

theorem normalize_ingredients_partitions:
  assumes "recognized_ingredient_names R = Inr names"
  shows "\<exists>matched unmatched.
      normalize_ingredients P R = Inr (matched, unmatched)
      \<and> matched = filter (\<lambda>p. PStr p \<in> set names) P
      \<and> unmatched = filter (\<lambda>p. PStr p \<notin> set names) P
      \<and> mset matched + mset unmatched = mset P
      \<and> set matched \<inter> set unmatched = {}
      \<and> subseq matched P \<and> subseq unmatched P"
proof -
  let ?m = "filter (\<lambda>p. PStr p \<in> set names) P"
  let ?u = "filter (\<lambda>p. PStr p \<notin> set names) P"
  from assms have "normalize_ingredients P R = Inr (?m, ?u)"
    by (simp add: normalize_ingredients_def)
  moreover have "mset ?m + mset ?u = mset P"
    by (induction P) simp_all
  moreover have "set ?m \<inter> set ?u = {}"
    by auto
  moreover have "subseq ?m P" and "subseq ?u P"
    by simp_all
  ultimately show ?thesis by blast
qed

theorem normalize_ingredients_partitions_witness:
  "recognized_ingredient_names
      (PList [PDict [(''strIngredient'', PStr ''Chicken'')], PDict [(''strIngredient'', PStr ''Rice'')]])
     = Inr [PStr ''Chicken'', PStr ''Rice'']
   \<and> normalize_ingredients [''Rice'', ''Soap'', ''chicken'', ''Rice'', ''Chicken'', ''Soap'']
      (PList [PDict [(''strIngredient'', PStr ''Chicken'')], PDict [(''strIngredient'', PStr ''Rice'')]])
     = Inr ([''Rice'', ''Rice'', ''Chicken''], [''Soap'', ''chicken'', ''Soap''])"
proof -
  let ?R = "PList [PDict [(''strIngredient'', PStr ''Chicken'')], PDict [(''strIngredient'', PStr ''Rice'')]]"
  have names: "recognized_ingredient_names ?R = Inr [PStr ''Chicken'', PStr ''Rice'']"
    by (simp add: recognized_ingredient_names_def)
  from normalize_ingredients_partitions [OF names, of "[''Rice'', ''Soap'', ''chicken'', ''Rice'', ''Chicken'', ''Soap'']"]
  have "normalize_ingredients [''Rice'', ''Soap'', ''chicken'', ''Rice'', ''Chicken'', ''Soap''] ?R
     = Inr ([''Rice'', ''Rice'', ''Chicken''], [''Soap'', ''chicken'', ''Soap''])"
    by auto
  with names show ?thesis by simp
qed

text \<open>
  C6. Let \<open>c\<close> be a candidate with a positive overlap count \<open>n\<close>, every candidate before it
  counting less and every candidate after it counting at most \<open>n\<close>: \<open>c\<close> is the first of
  the candidates with the maximal count. A selection that ends normally stores the details
  of \<open>c\<close>, however many later candidates reach the same count.
\<close>

theorem first_of_equal_best_wins:
  assumes run: "select_best_recipe get N (Some (pre @ c # post)) st = (None, st', evs)"
    and c: "fst (score_candidate get N c) = Inr (Some (d, n))" and pos: "0 < n"
    and before: "\<forall>c'\<in>set pre. \<forall>d' n'. fst (score_candidate get N c') = Inr (Some (d', n')) \<longrightarrow> n' < n"
    and after: "\<forall>c'\<in>set post. \<forall>d' n'. fst (score_candidate get N c') = Inr (Some (d', n')) \<longrightarrow> n' \<le> n"
  shows "st' = st\<lparr>ss_best_recipe := Some d\<rparr>"
proof -
  from run have "fst (select_best_recipe get N (Some (pre @ c # post)) st) = None"
    by simp
  then obtain b k where all: "fst (best_loop get N (pre @ c # post) PNone 0) = Inr (b, k)"
    by (auto simp: select_best_recipe_loop(1) split: sum.splits)
  then obtain b1 k1 where
    p: "fst (best_loop get N pre PNone 0) = Inr (b1, k1)"
    and rest: "fst (best_loop get N (c # post) b1 k1) = Inr (b, k)"
    by (auto simp: best_loop_append split: sum.splits)
  from best_loop_result [OF p] before pos have "k1 < n"
    by auto
  with rest c have "fst (best_loop get N post d n) = Inr (b, k)"
    by (simp add: fst_best_loop_Cons del: best_loop.simps)
  from best_loop_keeps [OF after this] have "b = d" by simp
  moreover from score_candidate_SomeD [OF c] have "truthy d" by simp
  moreover from run have "fst (snd (select_best_recipe get N (Some (pre @ c # post)) st)) = st'"
    by simp
  ultimately show ?thesis
    using all by (simp add: select_best_recipe_loop(2))
qed

theorem first_of_equal_best_wins_witness:
  "fst (score_candidate mealdb [''Chicken'', ''Rice''] (stub ''1'' ''Chicken Rice'')) = Inr (Some (chicken_rice, 2))
   \<and> fst (score_candidate mealdb [''Chicken'', ''Rice''] (stub ''2'' ''Rice Chicken'')) = Inr (Some (rice_chicken, 2))
   \<and> fst (snd (select_best_recipe mealdb [''Chicken'', ''Rice'']
        (Some ([stub ''4'' ''Salad''] @ stub ''1'' ''Chicken Rice'' # [stub ''2'' ''Rice Chicken'', stub ''3'' ''Gone'']))
        salad_session))
      = salad_session\<lparr>ss_best_recipe := Some chicken_rice\<rparr>"
proof -
  let ?N = "[''Chicken'', ''Rice'']"
  let ?C = "[stub ''4'' ''Salad''] @ stub ''1'' ''Chicken Rice'' # [stub ''2'' ''Rice Chicken'', stub ''3'' ''Gone'']"
  have run: "select_best_recipe mealdb ?N (Some ?C) salad_session
      = (None, salad_session\<lparr>ss_best_recipe := Some chicken_rice\<rparr>,
         [recipes_unlocked, st_error ''API request failed with status code 500''])"
    by code_simp
  have s1: "fst (score_candidate mealdb ?N (stub ''1'' ''Chicken Rice'')) = Inr (Some (chicken_rice, 2))"
    by code_simp
  have s2: "fst (score_candidate mealdb ?N (stub ''2'' ''Rice Chicken'')) = Inr (Some (rice_chicken, 2))"
    by code_simp
  have s3: "fst (score_candidate mealdb ?N (stub ''3'' ''Gone'')) = Inr None"
    by code_simp
  have s4: "fst (score_candidate mealdb ?N (stub ''4'' ''Salad'')) = Inr (Some (salad, 0))"
    by code_simp
  have before: "\<forall>c'\<in>set [stub ''4'' ''Salad'']. \<forall>d' n'.
      fst (score_candidate mealdb ?N c') = Inr (Some (d', n')) \<longrightarrow> n' < 2"
    by (simp add: s4)
  have after: "\<forall>c'\<in>set [stub ''2'' ''Rice Chicken'', stub ''3'' ''Gone'']. \<forall>d' n'.
      fst (score_candidate mealdb ?N c') = Inr (Some (d', n')) \<longrightarrow> n' \<le> 2"
    by (simp add: s2 s3)
  have "salad_session\<lparr>ss_best_recipe := Some chicken_rice\<rparr>
      = salad_session\<lparr>ss_best_recipe := Some chicken_rice\<rparr>"
    by (rule first_of_equal_best_wins [OF run s1 _ before after]) simp
  with run s1 s2 show ?thesis by simp
qed

text \<open>
  C7. Neither chat backend raises, whatever its library does, and when the library call
  raises \<open>e\<close> the backend returns \<^verbatim>\<open>An error occurred: \<close> followed by \<^verbatim>\<open>str(e)\<close>.
\<close>

theorem chat_backends_never_raise:
  "(\<exists>s. generate_response_gemma lib prompt = Inr s)
   \<and> (\<exists>s. generate_response_llama lib prompt = Inr s)
   \<and> (\<forall>e. ollama_generate lib ''gemma:2b'' prompt = Inl e \<longrightarrow>
          generate_response_gemma lib prompt = Inr (''An error occurred: '' @ exn_str e))
   \<and> (\<forall>e. Ollama lib ''llama2'' = Inl e \<longrightarrow>
          generate_response_llama lib prompt = Inr (''An error occurred: '' @ exn_str e))
   \<and> (\<forall>e llm. Ollama lib ''llama2'' = Inr llm \<and> llm_invoke lib llm prompt = Inl e \<longrightarrow>
          generate_response_llama lib prompt = Inr (''An error occurred: '' @ exn_str e))"
  by (auto simp: generate_response_gemma_def generate_response_llama_def error_occurred_def
      split: sum.splits option.splits)

theorem chat_backends_never_raise_witness:
  "generate_response_gemma offline_lib ''Soup?'' = Inr ''An error occurred: Failed to connect to Ollama''
   \<and> generate_response_llama offline_lib ''Soup?'' = Inr ''An error occurred: Connection refused''
   \<and> generate_response_llama unbuilt_lib ''Soup?'' = Inr ''An error occurred: Could not import ollama''"
proof -
  have g: "ollama_generate offline_lib ''gemma:2b'' ''Soup?'' = Inl (Exn LibraryError ''Failed to connect to Ollama'')"
    by (simp add: offline_lib_def)
  have l: "Ollama offline_lib ''llama2'' = Inr ''llama2''
      \<and> llm_invoke offline_lib ''llama2'' ''Soup?'' = Inl (Exn LibraryError ''Connection refused'')"
    by (simp add: offline_lib_def)
  have u: "Ollama unbuilt_lib ''llama2'' = Inl (Exn ValueError ''Could not import ollama'')"
    by (simp add: unbuilt_lib_def offline_lib_def)
  from chat_backends_never_raise [of offline_lib "''Soup?''"] g l
  have 1: "generate_response_gemma offline_lib ''Soup?'' = Inr ''An error occurred: Failed to connect to Ollama''"
    and 2: "generate_response_llama offline_lib ''Soup?'' = Inr ''An error occurred: Connection refused''"
    by auto
  from chat_backends_never_raise [of unbuilt_lib "''Soup?''"] u
  have 3: "generate_response_llama unbuilt_lib ''Soup?'' = Inr ''An error occurred: Could not import ollama''"
    by auto
  from 1 2 3 show ?thesis by simp
qed

text \<open>
  C8. When the category and area search returned a list whose first candidate \<open>c\<close> has the
  id \<open>recipe_id\<close>, and the lookup of that id returns, the filter tab stores what the lookup
  returned. The other candidates \<open>cs\<close> are not looked at and nothing is counted.
\<close>

theorem filter_tab_stores_first_candidate:
  assumes "subscript_key c ''idMeal'' = Inr recipe_id"
    and "get_recipe_details get recipe_id = (Inr details, evs)"
  shows "pick_first_recipe get (PList (c # cs)) st =
           (None, st\<lparr>ss_best_recipe := Some details\<rparr>, recipes_unlocked # evs)"
proof -
  from assms(1) obtain kvs where "c = PDict kvs" and "map_of kvs ''idMeal'' = Some recipe_id"
    by (cases c) (auto split: option.splits)
  then have "truthy c" by auto
  with assms show ?thesis by (simp add: pick_first_recipe_def)
qed

theorem filter_tab_stores_first_candidate_witness:
  "subscript_key (stub ''2'' ''Rice Chicken'') ''idMeal'' = Inr (PStr ''2'')
   \<and> pick_first_recipe mealdb (PList (stub ''2'' ''Rice Chicken'' # [stub ''1'' ''Chicken Rice''])) salad_session
     = (None, salad_session\<lparr>ss_best_recipe := Some rice_chicken\<rparr>, recipes_unlocked # [])
   \<and> fst (snd (select_filters_tab mealdb (PStr ''Chicken'') (PStr ''All'') True salad_session))
     = salad_session\<lparr>ss_best_recipe := Some rice_chicken\<rparr>"
proof -
  have k: "subscript_key (stub ''2'' ''Rice Chicken'') ''idMeal'' = Inr (PStr ''2'')"
    by (simp add: stub_def)
  have d: "get_recipe_details mealdb (PStr ''2'') = (Inr rice_chicken, [])"
    by code_simp
  have t: "fst (snd (select_filters_tab mealdb (PStr ''Chicken'') (PStr ''All'') True salad_session))
     = salad_session\<lparr>ss_best_recipe := Some rice_chicken\<rparr>"
    by code_simp
  from filter_tab_stores_first_candidate [OF k d] k t show ?thesis by simp
qed

text \<open>
  C9. When the button is pressed on an input that is not empty, the chat tab ends normally
  and leaves a transcript of exactly two lines, the user's line and the line of the
  response of the backend it called, whatever the transcript held before.
\<close>

theorem chat_turn_replaces_transcript:
  assumes "user_input \<noteq> []"
  shows "\<exists>bot_response st' evs.
      chatbot_tab lib model_choice user_input input_changed True st = (None, st', evs)
      \<and> (if model_choice = ''gemma:2b'' then generate_response_gemma lib user_input
          else generate_response_llama lib user_input) = Inr bot_response
      \<and> ss_history st' = Some [''Aspiring Chef: '' @ user_input, ''Culinary Luminary: '' @ bot_response]"
proof -
  obtain g where g: "generate_response_gemma lib user_input = Inr g"
    using generate_response_gemma_returns by blast
  obtain l where l: "generate_response_llama lib user_input = Inr l"
    using generate_response_llama_returns by blast
  from assms g l show ?thesis
    by (simp add: chatbot_tab_def Let_def)
qed

theorem chat_turn_replaces_transcript_witness:
  "ss_history old_chat_session = Some [''Aspiring Chef: Bread?'', ''Culinary Luminary: Bake it.'']
   \<and> (\<exists>st' evs. chatbot_tab working_lib ''Chef App-etizer'' ''Soup?'' True True old_chat_session = (None, st', evs)
        \<and> ss_history st' = Some [''Aspiring Chef: Soup?'', ''Culinary Luminary: Roast it.''])"
proof -
  have ne: "''Soup?'' \<noteq> []" by simp
  have r: "generate_response_llama working_lib ''Soup?'' = Inr ''Roast it.''"
    by (simp add: generate_response_llama_def working_lib_def)
  from chat_turn_replaces_transcript [OF ne, where lib = working_lib
        and model_choice = "''Chef App-etizer''" and input_changed = True and st = old_chat_session] r
  show ?thesis by (auto simp: old_chat_session_def)
qed

text \<open>
  C10. For each of the two chefs the select box offers, the chat tab answers with the
  response of \<open>generate_response_llama\<close>, and the run is the same whatever
  \<^verbatim>\<open>ollama.generate\<close>, the library call of \<open>generate_response_gemma\<close>, would do: the test
  against \<^verbatim>\<open>gemma:2b\<close> fails for both.
\<close>

theorem offered_chefs_run_llama:
  assumes "model_choice \<in> set chef_options"
  shows "model_choice \<noteq> ''gemma:2b''
    \<and> chatbot_tab (lib\<lparr>ollama_generate := g\<rparr>) model_choice user_input input_changed button st
        = chatbot_tab lib model_choice user_input input_changed button st
    \<and> (button \<and> user_input \<noteq> [] \<longrightarrow>
         (\<exists>r. generate_response_llama lib user_input = Inr r
            \<and> ss_history (fst (snd (chatbot_tab lib model_choice user_input input_changed button st)))
                = Some [''Aspiring Chef: '' @ user_input, ''Culinary Luminary: '' @ r]))"
proof -
  from assms have ne: "model_choice \<noteq> ''gemma:2b''"
    by (auto simp: chef_options_def)
  have same: "generate_response_llama (lib\<lparr>ollama_generate := g\<rparr>) user_input
      = generate_response_llama lib user_input"
    by (simp add: generate_response_llama_def split: sum.splits)
  obtain l where l: "generate_response_llama lib user_input = Inr l"
    using generate_response_llama_returns by blast
  from ne same l show ?thesis
    by (simp add: chatbot_tab_def Let_def)
qed

theorem offered_chefs_run_llama_witness:
  "''Chef De-Code'' \<in> set chef_options \<and> ''Chef App-etizer'' \<in> set chef_options
   \<and> generate_response_gemma working_lib ''Soup?'' = Inr ''Stew it.''
   \<and> ss_history (fst (snd (chatbot_tab working_lib ''Chef De-Code'' ''Soup?'' False True fresh_session)))
      = Some [''Aspiring Chef: Soup?'', ''Culinary Luminary: Roast it.'']
   \<and> ss_history (fst (snd (chatbot_tab working_lib ''Chef App-etizer'' ''Soup?'' False True fresh_session)))
      = Some [''Aspiring Chef: Soup?'', ''Culinary Luminary: Roast it.'']"
proof -
  have a: "''Chef De-Code'' \<in> set chef_options" and b: "''Chef App-etizer'' \<in> set chef_options"
    by (simp_all add: chef_options_def)
  have r: "generate_response_llama working_lib ''Soup?'' = Inr ''Roast it.''"
    by (simp add: generate_response_llama_def working_lib_def)
  have s: "generate_response_gemma working_lib ''Soup?'' = Inr ''Stew it.''"
    by (simp add: generate_response_gemma_def working_lib_def)
  from offered_chefs_run_llama [OF a, where lib = working_lib and user_input = "''Soup?''"
        and input_changed = False and button = True and st = fresh_session]
    offered_chefs_run_llama [OF b, where lib = working_lib and user_input = "''Soup?''"
        and input_changed = False and button = True and st = fresh_session]
    r a b s
  show ?thesis by simp
qed

end
